theory Spec2Isabelle
  imports Complex_Main
begin

section \<open>Python values and faults\<close>

text \<open>
  The two faults that the modelled functions of \<^verbatim>\<open>main.py\<close> can raise by themselves:
  a list or string subscript out of range, and \<^verbatim>\<open>int()\<close> applied to a string that is no
  decimal literal. A function that may raise returns \<open>error + 'a\<close>, the fault on the left.

  Python strings are modelled as \<open>string\<close>; a one-character string such as \<^verbatim>\<open>move[1]\<close> is
  a \<open>char\<close>. Characters are therefore the code points 0..255, among which the decimal
  digits accepted by \<^verbatim>\<open>int()\<close> are exactly \<^verbatim>\<open>'0'\<close>..\<^verbatim>\<open>'9'\<close>.
\<close>

datatype error = IndexError | ValueError

text \<open>
  Subscripting \<^verbatim>\<open>xs[i]\<close>: an index from \<open>0\<close> to \<open>len - 1\<close> selects from the front, an index
  from \<open>-len\<close> to \<open>-1\<close> selects from the end, everything else raises \<^verbatim>\<open>IndexError\<close>.
\<close>

definition py_index :: "'a list \<Rightarrow> int \<Rightarrow> error + 'a" where
  "py_index xs i =
     (if 0 \<le> i \<and> i < int (length xs) then Inr (xs ! nat i)
      else if i < 0 \<and> - int (length xs) \<le> i then Inr (xs ! nat (int (length xs) + i))
      else Inl IndexError)"

definition ord :: "char \<Rightarrow> int" where
  "ord c = int (of_char c)"

definition is_digit :: "char \<Rightarrow> bool" where
  "is_digit c = (48 \<le> (of_char c :: nat) \<and> (of_char c :: nat) \<le> 57)"

definition digit_value :: "char \<Rightarrow> nat" where
  "digit_value c = of_char c - 48"

text \<open>\<^verbatim>\<open>int(s)\<close> for a one-character string \<open>s\<close>.\<close>

definition py_int :: "char \<Rightarrow> error + int" where
  "py_int c = (if is_digit c then Inr (int (digit_value c)) else Inl ValueError)"

text \<open>\<^verbatim>\<open>str(n)\<close> for a non-negative integer: its decimal numeral.\<close>

definition digit_char :: "nat \<Rightarrow> char" where
  "digit_char d = char_of (48 + d)"

fun str_nat :: "nat \<Rightarrow> string" where
  "str_nat n = (if n < 10 then [digit_char n] else str_nat (n div 10) @ [digit_char (n mod 10)])"

declare str_nat.simps [simp del]

section \<open>Chessboard: screen geometry and move execution\<close>

text \<open>
  \<^verbatim>\<open>Point = namedtuple("Point", ["x", "y"])\<close>. Pixel coordinates are integers at the
  corners and become fractions through the true division by 8; they are modelled as exact
  rationals, which is what the floating-point operations of \<^verbatim>\<open>calculate_centers\<close> compute
  for integer pixel corners of any realistic size (all intermediate values are multiples
  of 1/16 far below \<open>2^53\<close>).
\<close>

datatype point = Point (point_x: rat) (point_y: rat)

definition get_initial_board_position :: "point \<times> point \<times> string" where
  "get_initial_board_position = (Point 19 182, Point 785 948, ''black'')"

text \<open>The inner loop of \<^verbatim>\<open>calculate_centers\<close>: one row of centres, appended column by column.\<close>

fun centers_cols :: "point \<Rightarrow> rat \<Rightarrow> rat \<Rightarrow> nat \<Rightarrow> nat list \<Rightarrow> point list \<Rightarrow> point list" where
  "centers_cols upper_left_corner square_width square_height row [] row_coords = row_coords"
| "centers_cols upper_left_corner square_width square_height row (col # cols) row_coords =
     centers_cols upper_left_corner square_width square_height row cols
       (row_coords @
        [Point (point_x upper_left_corner + (of_nat col + 1 / 2) * square_width)
               (point_y upper_left_corner + (of_nat row + 1 / 2) * square_height)])"

text \<open>The outer loop: the rows, appended from the top.\<close>

fun centers_rows :: "point \<Rightarrow> rat \<Rightarrow> rat \<Rightarrow> nat list \<Rightarrow> point list list \<Rightarrow> point list list" where
  "centers_rows upper_left_corner square_width square_height [] centers = centers"
| "centers_rows upper_left_corner square_width square_height (row # rows) centers =
     centers_rows upper_left_corner square_width square_height rows
       (centers @ [centers_cols upper_left_corner square_width square_height row [0..<8] []])"

definition calculate_centers :: "point \<Rightarrow> point \<Rightarrow> point list list" where
  "calculate_centers upper_left_corner lower_right_corner =
     (let square_width = (point_x lower_right_corner - point_x upper_left_corner) / 8;
          square_height = (point_y lower_right_corner - point_y upper_left_corner) / 8
      in centers_rows upper_left_corner square_width square_height [0..<8] [])"

text \<open>
  The first four assignments of \<^verbatim>\<open>make_move\<close>, in the order of the source: each subscript
  of the move string and each \<^verbatim>\<open>int()\<close> may raise before the next one is evaluated.
\<close>

record move_indices =
  origin_column :: int
  origin_row :: int
  dest_column :: int
  dest_row :: int

definition parse_move :: "string \<Rightarrow> error + move_indices" where
  "parse_move move =
     (case py_index move 0 of Inl e \<Rightarrow> Inl e | Inr c0 \<Rightarrow>
      case py_index move 1 of Inl e \<Rightarrow> Inl e | Inr c1 \<Rightarrow>
      case py_int c1 of Inl e \<Rightarrow> Inl e | Inr d1 \<Rightarrow>
      case py_index move 2 of Inl e \<Rightarrow> Inl e | Inr c2 \<Rightarrow>
      case py_index move 3 of Inl e \<Rightarrow> Inl e | Inr c3 \<Rightarrow>
      case py_int c3 of Inl e \<Rightarrow> Inl e | Inr d3 \<Rightarrow>
        Inr \<lparr>origin_column = ord c0 - ord CHR ''a'', origin_row = 8 - d1,
             dest_column = ord c2 - ord CHR ''a'', dest_row = 8 - d3\<rparr>)"

text \<open>
  \<^verbatim>\<open>make_move\<close>: the two grid lookups, origin then destination, and the two clicks. The
  result is the list of points clicked, in the order of the clicks.
\<close>

definition make_move :: "point list list \<Rightarrow> string \<Rightarrow> error + point list" where
  "make_move board_coords move =
     (case parse_move move of Inl e \<Rightarrow> Inl e | Inr ix \<Rightarrow>
      case py_index board_coords (origin_row ix) of Inl e \<Rightarrow> Inl e | Inr orow \<Rightarrow>
      case py_index orow (origin_column ix) of Inl e \<Rightarrow> Inl e | Inr origin \<Rightarrow>
      case py_index board_coords (dest_row ix) of Inl e \<Rightarrow> Inl e | Inr drow \<Rightarrow>
      case py_index drow (dest_column ix) of Inl e \<Rightarrow> Inl e | Inr destination \<Rightarrow>
        Inr [origin, destination])"

section \<open>ChessEngine: the board matrix and its FEN encoding\<close>

text \<open>The matrix returned by the stub \<^verbatim>\<open>get_board_from_screenshot\<close>, whatever the file name.\<close>

definition get_board_from_screenshot :: "string \<Rightarrow> string list list" where
  "get_board_from_screenshot board_screenshot_filename =
     [[''R'', ''-'', ''B'', ''K'', ''-'', ''-'', ''-'', ''R''],
      [''-'', ''P'', ''P'', ''-'', ''P'', ''-'', ''-'', ''-''],
      [''-'', ''-'', ''-'', ''P'', ''-'', ''-'', ''-'', ''-''],
      [''P'', ''b'', ''-'', ''-'', ''-'', ''-'', ''n'', ''-''],
      [''-'', ''-'', ''-'', ''-'', ''P'', ''-'', ''-'', ''-''],
      [''p'', ''p'', ''B'', ''-'', ''-'', ''-'', ''-'', ''-''],
      [''-'', ''-'', ''-'', ''-'', ''-'', ''-'', ''p'', ''p''],
      [''-'', ''k'', ''-'', ''r'', ''-'', ''-'', ''-'', ''r'']]"

text \<open>
  The inner loop of \<^verbatim>\<open>board_to_fen\<close> over \<^verbatim>\<open>range(1, 9)\<close>; the state is the text so far and
  \<^verbatim>\<open>empty_counter\<close>.
\<close>

fun fen_columns :: "string list list \<Rightarrow> int \<Rightarrow> int list \<Rightarrow> string \<Rightarrow> nat \<Rightarrow> error + string \<times> nat" where
  "fen_columns board_pieces row [] fen empty_counter = Inr (fen, empty_counter)"
| "fen_columns board_pieces row (column # columns) fen empty_counter =
     (case py_index board_pieces (8 - row) of Inl e \<Rightarrow> Inl e | Inr r \<Rightarrow>
      case py_index r (column - 1) of Inl e \<Rightarrow> Inl e | Inr square \<Rightarrow>
        if square = ''-'' then fen_columns board_pieces row columns fen (empty_counter + 1)
        else if empty_counter > 0
          then fen_columns board_pieces row columns (fen @ str_nat empty_counter @ square) 0
          else fen_columns board_pieces row columns (fen @ square) empty_counter)"

text \<open>The outer loop over \<^verbatim>\<open>range(8, 0, -1)\<close>.\<close>

fun fen_rows :: "string list list \<Rightarrow> int list \<Rightarrow> string \<Rightarrow> error + string" where
  "fen_rows board_pieces [] fen = Inr fen"
| "fen_rows board_pieces (row # rows) fen =
     (case fen_columns board_pieces row [1..8] fen 0 of Inl e \<Rightarrow> Inl e
      | Inr (fen1, empty_counter) \<Rightarrow>
          fen_rows board_pieces rows
            ((if empty_counter > 0 then fen1 @ str_nat empty_counter else fen1) @ ''/''))"

definition board_to_fen :: "string list list \<Rightarrow> string \<Rightarrow> error + string" where
  "board_to_fen board_pieces color_to_move =
     (case fen_rows board_pieces [8, 7, 6, 5, 4, 3, 2, 1] [] of Inl e \<Rightarrow> Inl e
      | Inr fen \<Rightarrow>
          Inr (butlast fen @
               (if color_to_move = ''black'' then '' w - - 0 1'' else '' b - - 0 1'')))"

section \<open>The main loop up to the FEN\<close>

text \<open>\<^verbatim>\<open>[list(reversed(row)) for row in reversed(board)]\<close>\<close>

definition flip_board :: "'a list list \<Rightarrow> 'a list list" where
  "flip_board board = map rev (rev board)"

text \<open>
  One iteration of the loop of \<^verbatim>\<open>main\<close>, from the recognised board to the FEN, for the
  tracked colour \<open>color\<close>.
\<close>

definition loop_fen :: "string \<Rightarrow> error + string" where
  "loop_fen color =
     (let board = get_board_from_screenshot ''screenshot.png'';
          board = (if color = ''black'' then flip_board board else board)
      in board_to_fen board color)"

definition main_fen :: "error + string" where
  "main_fen = (case get_initial_board_position of
                 (upper_left_corner, lower_right_corner, color) \<Rightarrow> loop_fen color)"

section \<open>Notions used to state the properties\<close>

text \<open>The piece-placement field of a FEN: the text before the first space.\<close>

definition placement_field :: "string \<Rightarrow> string" where
  "placement_field fen = takeWhile (\<lambda>c. c \<noteq> CHR '' '') fen"

definition board_placement :: "string list list \<Rightarrow> string \<Rightarrow> error + string" where
  "board_placement board_pieces color_to_move =
     (case board_to_fen board_pieces color_to_move of Inl e \<Rightarrow> Inl e
      | Inr fen \<Rightarrow> Inr (placement_field fen))"

definition is_8x8 :: "'a list list \<Rightarrow> bool" where
  "is_8x8 m = (length m = 8 \<and> list_all (\<lambda>r. length r = 8) m)"

text \<open>The standard initial position, row 0 holding the lower-case back rank.\<close>

definition initial_board :: "string list list" where
  "initial_board =
     [[''r'', ''n'', ''b'', ''q'', ''k'', ''b'', ''n'', ''r''],
      [''p'', ''p'', ''p'', ''p'', ''p'', ''p'', ''p'', ''p''],
      [''-'', ''-'', ''-'', ''-'', ''-'', ''-'', ''-'', ''-''],
      [''-'', ''-'', ''-'', ''-'', ''-'', ''-'', ''-'', ''-''],
      [''-'', ''-'', ''-'', ''-'', ''-'', ''-'', ''-'', ''-''],
      [''-'', ''-'', ''-'', ''-'', ''-'', ''-'', ''-'', ''-''],
      [''P'', ''P'', ''P'', ''P'', ''P'', ''P'', ''P'', ''P''],
      [''R'', ''N'', ''B'', ''Q'', ''K'', ''B'', ''N'', ''R'']]"

definition endswith :: "string \<Rightarrow> string \<Rightarrow> bool" where
  "endswith s suffix = (length suffix \<le> length s \<and> drop (length s - length suffix) s = suffix)"

text \<open>
  The encoding of one rank in the words of the specification: the squares are read from left
  to right, consecutive empty squares are counted, and the count is written as a numeral
  just before the next occupied square or at the end of the row. \<open>pending\<close> is the number
  of empty squares counted and not yet written.
\<close>

fun rank_text :: "string list \<Rightarrow> nat \<Rightarrow> string" where
  "rank_text [] pending = (if pending > 0 then str_nat pending else [])"
| "rank_text (square # squares) pending =
     (if square = ''-'' then rank_text squares (pending + 1)
      else (if pending > 0 then str_nat pending else []) @ square @ rank_text squares 0)"

definition spec_rank :: "string list \<Rightarrow> string" where
  "spec_rank squares = rank_text squares 0"

text \<open>Ranks separated by \<open>/\<close>, with no separator after the last one.\<close>

fun join_ranks :: "string list \<Rightarrow> string" where
  "join_ranks [] = []"
| "join_ranks [r] = r"
| "join_ranks (r # r' # rs) = r @ ''/'' @ join_ranks (r' # rs)"

text \<open>
  The rank order in the words of the specification, "from its last row to its first":
  the rank of row 7 is written first and that of row 0 last.
\<close>

definition spec_placement_last_row_first :: "string list list \<Rightarrow> string" where
  "spec_placement_last_row_first board_pieces = join_ranks (map spec_rank (rev board_pieces))"

text \<open>The rank order with row 0 written first and row 7 last.\<close>

definition placement_first_row_first :: "string list list \<Rightarrow> string" where
  "placement_first_row_first board_pieces = join_ranks (map spec_rank board_pieces)"

text \<open>The substrings of a text between the occurrences of a separator character.\<close>

fun split_on :: "char \<Rightarrow> string \<Rightarrow> string list" where
  "split_on sep [] = [[]]"
| "split_on sep (c # cs) =
     (if c = sep then [] # split_on sep cs
      else (c # hd (split_on sep cs)) # tl (split_on sep cs))"

text \<open>
  The symbols of a piece matrix: a piece is a single letter (upper case for one side, lower
  case for the other), an empty square is the dash.
\<close>

definition is_letter :: "char \<Rightarrow> bool" where
  "is_letter c = ((65 \<le> (of_char c :: nat) \<and> (of_char c :: nat) \<le> 90) \<or>
                  (97 \<le> (of_char c :: nat) \<and> (of_char c :: nat) \<le> 122))"

definition is_piece :: "string \<Rightarrow> bool" where
  "is_piece square = (length square = 1 \<and> is_letter (hd square))"

definition is_square :: "string \<Rightarrow> bool" where
  "is_square square = (square = ''-'' \<or> is_piece square)"

text \<open>
  The number of squares that a rank substring stands for: a digit counts for its value,
  any other character for one square.
\<close>

fun seg_weight :: "string \<Rightarrow> nat" where
  "seg_weight [] = 0"
| "seg_weight (c # cs) = (if is_digit c then digit_value c else 1) + seg_weight cs"

definition all_empty_board :: "string list list" where
  "all_empty_board = replicate 8 (replicate 8 ''-'')"

text \<open>The placement field that one iteration of the main loop computes.\<close>

definition loop_placement :: "string \<Rightarrow> error + string" where
  "loop_placement color =
     (case loop_fen color of Inl e \<Rightarrow> Inl e | Inr fen \<Rightarrow> Inr (placement_field fen))"

text \<open>An index of the board proper, and an index that a subscript of an 8-element list accepts.\<close>

definition in_board :: "int \<Rightarrow> bool" where
  "in_board i = (0 \<le> i \<and> i \<le> 7)"

definition subscript_ok :: "int \<Rightarrow> bool" where
  "subscript_ok i = (- 8 \<le> i \<and> i \<le> 7)"

text \<open>The position that a subscript accepted by an 8-element list selects.\<close>

definition wrap_index :: "int \<Rightarrow> nat" where
  "wrap_index i = nat (if i < 0 then 8 + i else i)"

text \<open>The file letters \<open>a\<close> to \<open>h\<close> and the rank digits \<open>1\<close> to \<open>8\<close>.\<close>

definition is_file_letter :: "char \<Rightarrow> bool" where
  "is_file_letter c = (97 \<le> (of_char c :: nat) \<and> (of_char c :: nat) \<le> 104)"

definition is_rank_digit :: "char \<Rightarrow> bool" where
  "is_rank_digit c = (49 \<le> (of_char c :: nat) \<and> (of_char c :: nat) \<le> 56)"

text \<open>
  The grid of click points that \<^verbatim>\<open>main\<close> builds before its loop: the centres of the
  hardcoded board region, reversed in both axes when the tracked colour is \<open>black\<close>.
\<close>

definition main_square_centers :: "point list list" where
  "main_square_centers =
     (case get_initial_board_position of
        (upper_left_corner, lower_right_corner, color) \<Rightarrow>
          (let square_centers = calculate_centers upper_left_corner lower_right_corner
           in if color = ''black'' then flip_board square_centers else square_centers))"

section \<open>The loops of the encoder, rank by rank\<close>

lemma range_1_9: "[1..8] = [1, 2, 3, 4, 5, 6, 7, (8::int)]"
  by code_simp

lemma list8:
  "length xs = 8 \<Longrightarrow> xs = [xs ! 0, xs ! 1, xs ! 2, xs ! 3, xs ! 4, xs ! 5, xs ! 6, xs ! 7]"
  by (rule nth_equalityI) (auto simp: nth_Cons' less_Suc_eq eval_nat_numeral)

text \<open>
  The inner loop, followed by the write of a pending count, appends the rank text of the
  squares it visits.
\<close>

lemma fen_columns_rank_text:
  assumes "py_index board_pieces (8 - row) = Inr r"
    and "\<forall>c \<in> set columns. 1 \<le> c \<and> c \<le> int (length r)"
  shows "(case fen_columns board_pieces row columns fen k of Inl e \<Rightarrow> Inl e
          | Inr (fen1, k1) \<Rightarrow> Inr (if 0 < k1 then fen1 @ str_nat k1 else fen1)) =
         Inr (fen @ rank_text (map (\<lambda>c. r ! nat (c - 1)) columns) k)"
  using assms(2)
proof (induction columns arbitrary: fen k)
  case Nil
  then show ?case by simp
next
  case (Cons c cs)
  then have ix: "py_index r (c - 1) = Inr (r ! nat (c - 1))"
    by (simp add: py_index_def)
  from Cons.prems have rest: "\<forall>c \<in> set cs. 1 \<le> c \<and> c \<le> int (length r)"
    by simp
  show ?case
    by (simp add: assms(1) ix Cons.IH [OF rest])
qed

lemma map_range_1_9: "length r = 8 \<Longrightarrow> map (\<lambda>c. r ! nat (c - 1)) [1..8] = r"
  by (subst (2) list8, assumption) (simp add: range_1_9)

lemma fen_columns_row:
  assumes "py_index board_pieces (8 - row) = Inr r" and "length r = 8"
  shows "\<exists>fen1 k1. fen_columns board_pieces row [1..8] fen 0 = Inr (fen1, k1) \<and>
           (if 0 < k1 then fen1 @ str_nat k1 else fen1) = fen @ spec_rank r"
proof -
  have "\<forall>c \<in> set [1..8]. 1 \<le> c \<and> c \<le> int (length r)"
    using assms(2) by simp
  from fen_columns_rank_text [OF assms(1) this, of fen 0]
  have run: "(case fen_columns board_pieces row [1..8] fen 0 of Inl e \<Rightarrow> Inl e
          | Inr (fen1, k1) \<Rightarrow> Inr (if 0 < k1 then fen1 @ str_nat k1 else fen1)) =
         Inr (fen @ spec_rank r)"
    by (simp only: map_range_1_9 [OF assms(2)] spec_rank_def)
  show ?thesis
  proof (cases "fen_columns board_pieces row [1..8] fen 0")
    case (Inl e)
    with run show ?thesis by simp
  next
    case (Inr p)
    obtain a b where p: "p = (a, b)" by (cases p)
    from run Inr p have "(if 0 < b then a @ str_nat b else a) = fen @ spec_rank r"
      by simp
    with Inr p show ?thesis by blast
  qed
qed

lemma is_8x8_nth: "is_8x8 m \<Longrightarrow> i < 8 \<Longrightarrow> length (m ! i) = 8"
  by (simp add: is_8x8_def list_all_length)

lemma fen_rows_ranks:
  assumes "is_8x8 board_pieces" and "\<forall>row \<in> set rows. 1 \<le> row \<and> row \<le> 8"
  shows "fen_rows board_pieces rows fen =
           Inr (fen @ concat (map (\<lambda>row. spec_rank (board_pieces ! nat (8 - row)) @ ''/'') rows))"
  using assms(2)
proof (induction rows arbitrary: fen)
  case Nil
  then show ?case by simp
next
  case (Cons row rows)
  then have bounds: "1 \<le> row" "row \<le> 8" by simp_all
  with assms(1) have ix: "py_index board_pieces (8 - row) = Inr (board_pieces ! nat (8 - row))"
    by (simp add: py_index_def is_8x8_def)
  from bounds have "nat (8 - row) < 8" by simp
  with assms(1) have len: "length (board_pieces ! nat (8 - row)) = 8"
    by (rule is_8x8_nth)
  obtain fen1 k1 where
    cols: "fen_columns board_pieces row [1..8] fen 0 = Inr (fen1, k1)" and
    flushed: "(if 0 < k1 then fen1 @ str_nat k1 else fen1) =
                fen @ spec_rank (board_pieces ! nat (8 - row))"
    using fen_columns_row [OF ix len, of fen] by blast
  from Cons.prems have rest: "\<forall>row \<in> set rows. 1 \<le> row \<and> row \<le> 8" by simp
  show ?case
    by (simp add: cols flushed Cons.IH [OF rest] del: upto.simps)
qed

lemma butlast_concat_ranks:
  "butlast (concat (map (\<lambda>r. f r @ ''/'') rs)) = join_ranks (map f rs)"
proof (induction rs rule: induct_list012)
  case 1
  then show ?case by simp
next
  case (2 r)
  then show ?case by simp
next
  case (3 r r' rs)
  then show ?case by (simp add: butlast_append)
qed

lemma rows_of_range:
  "length m = 8 \<Longrightarrow> map (\<lambda>row. m ! nat (8 - row)) [8, 7, 6, 5, 4, 3, 2, (1::int)] = m"
  by (subst (2) list8, assumption) simp

text \<open>
  On an 8x8 matrix the encoder raises nothing and writes the ranks of rows 0, 1, ..., 7
  in this order.
\<close>

lemma board_to_fen_8x8:
  assumes "is_8x8 board_pieces"
  shows "board_to_fen board_pieces color_to_move =
           Inr (join_ranks (map spec_rank board_pieces) @
                (if color_to_move = ''black'' then '' w - - 0 1'' else '' b - - 0 1''))"
proof -
  have len: "length board_pieces = 8"
    using assms by (simp add: is_8x8_def)
  have "fen_rows board_pieces [8, 7, 6, 5, 4, 3, 2, 1] [] =
          Inr (concat (map (\<lambda>row. spec_rank (board_pieces ! nat (8 - row)) @ ''/'')
                 [8, 7, 6, 5, 4, 3, 2, 1]))"
    using fen_rows_ranks [OF assms, of "[8, 7, 6, 5, 4, 3, 2, 1]" "[]"] by simp
  also have "concat (map (\<lambda>row. spec_rank (board_pieces ! nat (8 - row)) @ ''/'')
                 [8, 7, 6, 5, 4, 3, 2, 1]) =
             concat (map (\<lambda>r. spec_rank r @ ''/'')
               (map (\<lambda>row. board_pieces ! nat (8 - row)) [8, 7, 6, 5, 4, 3, 2, 1]))"
    by (simp only: map_map comp_def)
  also have "\<dots> = concat (map (\<lambda>r. spec_rank r @ ''/'') board_pieces)"
    by (simp only: rows_of_range [OF len])
  finally have rows: "fen_rows board_pieces [8, 7, 6, 5, 4, 3, 2, 1] [] =
      Inr (concat (map (\<lambda>r. spec_rank r @ ''/'') board_pieces))" .
  show ?thesis
    unfolding board_to_fen_def rows by (simp add: butlast_concat_ranks)
qed

lemma initial_board_8x8: "is_8x8 initial_board"
  by (simp add: is_8x8_def initial_board_def)

lemma placement_field_suffix:
  "CHR '' '' \<notin> set p \<Longrightarrow>
   placement_field (p @ (if c = ''black'' then '' w - - 0 1'' else '' b - - 0 1'')) = p"
  by (induction p) (auto simp: placement_field_def)

section \<open>The encoder: opening position, rank order, active colour, main loop\<close>

text \<open>
  Claim C1. Encoding the standard initial setup (row 0 = \<open>rnbqkbnr\<close>, row 1 = \<open>pppppppp\<close>,
  rows 2 to 5 empty, row 6 = \<open>PPPPPPPP\<close>, row 7 = \<open>RNBQKBNR\<close>) with \<open>board_to_fen\<close> gives,
  for every value of the colour flag, a FEN whose text before the first space is exactly
  \<open>rnbqkbnr/pppppppp/8/8/8/8/PPPPPPPP/RNBQKBNR\<close>.
\<close>

theorem initial_setup_placement:
  "board_placement initial_board color_to_move =
     Inr ''rnbqkbnr/pppppppp/8/8/8/8/PPPPPPPP/RNBQKBNR''"
proof -
  have ranks: "join_ranks (map spec_rank initial_board) =
                 ''rnbqkbnr/pppppppp/8/8/8/8/PPPPPPPP/RNBQKBNR''"
    by code_simp
  have field: "placement_field (''rnbqkbnr/pppppppp/8/8/8/8/PPPPPPPP/RNBQKBNR'' @
        (if color_to_move = ''black'' then '' w - - 0 1'' else '' b - - 0 1'')) =
      ''rnbqkbnr/pppppppp/8/8/8/8/PPPPPPPP/RNBQKBNR''"
    by (rule placement_field_suffix) simp
  show ?thesis
    unfolding board_placement_def board_to_fen_8x8 [OF initial_board_8x8] ranks
    by (simp only: sum.case field)
qed

theorem initial_setup_placement_witness:
  "board_placement initial_board ''white'' =
     Inr ''rnbqkbnr/pppppppp/8/8/8/8/PPPPPPPP/RNBQKBNR'' \<and>
   board_placement initial_board ''black'' =
     Inr ''rnbqkbnr/pppppppp/8/8/8/8/PPPPPPPP/RNBQKBNR''"
  using initial_setup_placement [of "''white''"] initial_setup_placement [of "''black''"]
  by simp

text \<open>
  The rank order as the specification words it fails on the opening position: with the rank
  of row 7 first the text would start with \<open>RNBQKBNR\<close>, whereas the encoder starts with the
  rank of row 0, \<open>rnbqkbnr\<close>.
\<close>

theorem rank_order_last_row_first_counterexample:
  "is_8x8 initial_board \<and>
   spec_placement_last_row_first initial_board =
     ''RNBQKBNR/PPPPPPPP/8/8/8/8/pppppppp/rnbqkbnr'' \<and>
   board_to_fen initial_board ''white'' \<noteq>
     Inr (spec_placement_last_row_first initial_board @ '' b - - 0 1'') \<and>
   board_to_fen initial_board ''white'' =
     Inr ''rnbqkbnr/pppppppp/8/8/8/8/PPPPPPPP/RNBQKBNR b - - 0 1''"
  by code_simp

text \<open>
  Claim C2, amended. For every 8x8 matrix \<open>board_to_fen\<close> writes the ranks in the order of
  the rows of the matrix, row 0 first and row 7 last (the loop variable runs from 8 down
  to 1 and the row read is \<open>8 - row\<close>); within a rank the squares are read from column 0
  to column 7; the ranks are separated by \<open>/\<close> and no separator follows the last rank.
\<close>

theorem rank_order_row0_first:
  assumes "is_8x8 board_pieces"
  shows "board_to_fen board_pieces color_to_move =
           Inr (placement_first_row_first board_pieces @
                (if color_to_move = ''black'' then '' w - - 0 1'' else '' b - - 0 1''))"
  using board_to_fen_8x8 [OF assms] by (simp add: placement_first_row_first_def)

theorem rank_order_row0_first_witness:
  "is_8x8 initial_board \<and>
   board_to_fen initial_board ''white'' =
     Inr (placement_first_row_first initial_board @ '' b - - 0 1'') \<and>
   placement_first_row_first initial_board = ''rnbqkbnr/pppppppp/8/8/8/8/PPPPPPPP/RNBQKBNR''"
proof -
  have h: "is_8x8 initial_board" by (rule initial_board_8x8)
  have "placement_first_row_first initial_board =
          ''rnbqkbnr/pppppppp/8/8/8/8/PPPPPPPP/RNBQKBNR''"
    by code_simp
  with h rank_order_row0_first [OF h, of "''white''"] show ?thesis by simp
qed

text \<open>
  Claim C3. For every 8x8 matrix, the FEN that \<open>board_to_fen\<close> returns ends with
  \<open> w - - 0 1\<close> when the colour flag is \<open>black\<close>, and with \<open> b - - 0 1\<close> for every other
  colour flag.
\<close>

theorem active_color_suffix:
  assumes "is_8x8 board_pieces"
  shows "\<exists>fen. board_to_fen board_pieces color_to_move = Inr fen \<and>
           endswith fen (if color_to_move = ''black'' then '' w - - 0 1'' else '' b - - 0 1'')"
  using board_to_fen_8x8 [OF assms] by (simp add: endswith_def)

theorem active_color_suffix_witness:
  "is_8x8 initial_board \<and>
   (\<exists>fen. board_to_fen initial_board ''black'' = Inr fen \<and> endswith fen '' w - - 0 1'') \<and>
   (\<exists>fen. board_to_fen initial_board ''white'' = Inr fen \<and> endswith fen '' b - - 0 1'')"
  using initial_board_8x8 active_color_suffix [OF initial_board_8x8, of "''black''"]
    active_color_suffix [OF initial_board_8x8, of "''white''"]
  by simp

text \<open>
  With the tracked colour \<open>black\<close> the main loop does not encode the stub matrix as it is:
  the placement field it computes is not \<open>R1BK3R/1PP1P3/3P4/Pb4n1/4P3/ppB5/6pp/1k1r3r\<close>.
\<close>

theorem main_loop_black_counterexample:
  "loop_placement ''black'' \<noteq> Inr ''R1BK3R/1PP1P3/3P4/Pb4n1/4P3/ppB5/6pp/1k1r3r''"
  by code_simp

text \<open>
  Claim C4, amended. In the main loop with tracked colour \<open>black\<close> the stub matrix is first
  reversed in both axes, and the placement field computed is
  \<open>r3r1k1/pp6/5Bpp/3P4/1n4bP/4P3/3P1PP1/R3KB1R\<close>; \<open>black\<close> is the colour that \<open>main\<close>
  tracks, and the FEN of its loop is this field followed by \<open> w - - 0 1\<close>. The text
  \<open>R1BK3R/1PP1P3/3P4/Pb4n1/4P3/ppB5/6pp/1k1r3r\<close> is what \<open>board_to_fen\<close> gives for the stub
  matrix itself, without the reversal.
\<close>

theorem main_loop_black_flipped:
  "loop_placement ''black'' = Inr ''r3r1k1/pp6/5Bpp/3P4/1n4bP/4P3/3P1PP1/R3KB1R'' \<and>
   main_fen = Inr ''r3r1k1/pp6/5Bpp/3P4/1n4bP/4P3/3P1PP1/R3KB1R w - - 0 1'' \<and>
   board_placement (get_board_from_screenshot ''screenshot.png'') ''black'' =
     Inr ''R1BK3R/1PP1P3/3P4/Pb4n1/4P3/ppB5/6pp/1k1r3r''"
  by code_simp

section \<open>The grid of square centres\<close>







section \<open>Move execution\<close>

lemma parse_move_four:
  assumes "is_digit r1" and "is_digit r2"
  shows "parse_move (f1 # r1 # f2 # r2 # rest) =
     Inr \<lparr>origin_column = ord f1 - ord CHR ''a'', origin_row = 8 - int (digit_value r1),
          dest_column = ord f2 - ord CHR ''a'', dest_row = 8 - int (digit_value r2)\<rparr>"
  using assms by (simp add: parse_move_def py_index_def py_int_def)

lemma py_index_in_board:
  "length xs = 8 \<Longrightarrow> in_board i \<Longrightarrow> py_index xs i = Inr (xs ! nat i)"
  by (simp add: py_index_def in_board_def)

lemma make_move_in_board:
  assumes "is_8x8 board_coords" and "parse_move move = Inr ix"
    and "in_board (origin_row ix)" and "in_board (origin_column ix)"
    and "in_board (dest_row ix)" and "in_board (dest_column ix)"
  shows "make_move board_coords move =
           Inr [board_coords ! nat (origin_row ix) ! nat (origin_column ix),
                board_coords ! nat (dest_row ix) ! nat (dest_column ix)]"
proof -
  have len: "length board_coords = 8"
    using assms(1) by (simp add: is_8x8_def)
  have "nat (origin_row ix) < 8" "nat (dest_row ix) < 8"
    using assms(3,5) by (auto simp: in_board_def)
  then have rows: "length (board_coords ! nat (origin_row ix)) = 8"
    "length (board_coords ! nat (dest_row ix)) = 8"
    using assms(1) by (simp_all add: is_8x8_nth)
  show ?thesis
    by (simp add: make_move_def assms(2) py_index_in_board len rows assms(3-6))
qed



text \<open>
  A rank character \<open>9\<close> gives the row index \<open>-1\<close>, which lies outside 0..7; the subscript
  does not fault on it but selects the last row of the grid, and the move is clicked.
\<close>

theorem make_move_negative_index_counterexample:
  "length ''e9e4'' = 4 \<and>
   parse_move ''e9e4'' =
     Inr \<lparr>origin_column = 4, origin_row = - 1, dest_column = 4, dest_row = 4\<rparr> \<and>
   \<not> in_board (- 1) \<and> is_8x8 main_square_centers \<and>
   make_move main_square_centers ''e9e4'' =
     Inr [main_square_centers ! 7 ! 4, main_square_centers ! 4 ! 4]"
  by code_simp

lemma py_index_rejected:
  "length xs = 8 \<Longrightarrow> \<not> subscript_ok i \<Longrightarrow> py_index xs i = Inl IndexError"
  by (auto simp: py_index_def subscript_ok_def)

lemma py_index_accepted:
  "length xs = 8 \<Longrightarrow> subscript_ok i \<Longrightarrow> py_index xs i = Inr (xs ! wrap_index i)"
  by (auto simp: py_index_def subscript_ok_def wrap_index_def)

lemma wrap_index_less: "subscript_ok i \<Longrightarrow> wrap_index i < 8"
  by (auto simp: subscript_ok_def wrap_index_def)

lemma grid_lookup:
  assumes "is_8x8 m"
  shows "(case py_index m i of Inl e \<Rightarrow> Inl e | Inr r \<Rightarrow>
            case py_index r j of Inl e \<Rightarrow> Inl e | Inr p \<Rightarrow> k p) =
         (if subscript_ok i \<and> subscript_ok j then k (m ! wrap_index i ! wrap_index j)
          else Inl IndexError)"
proof -
  have len: "length m = 8"
    using assms by (simp add: is_8x8_def)
  show ?thesis
  proof (cases "subscript_ok i")
    case False
    then show ?thesis by (simp add: py_index_rejected [OF len])
  next
    case True
    then have row: "length (m ! wrap_index i) = 8"
      using assms by (simp add: is_8x8_nth wrap_index_less)
    show ?thesis
      by (cases "subscript_ok j")
         (simp_all add: True py_index_accepted [OF len] py_index_accepted [OF row]
            py_index_rejected [OF row])
  qed
qed

text \<open>
  Claim C7, amended. \<open>make_move\<close> performs no validation of the move string. For every move
  whose four indices are computed and every 8x8 grid, the lookup fault \<open>IndexError\<close> is the
  outcome exactly when one of the four indices lies outside \<open>-8..7\<close>; an index from \<open>-8\<close>
  to \<open>-1\<close> is accepted by the subscript, selects a row or column counted from the end, and
  the two points are clicked.
\<close>

theorem make_move_fault_iff:
  assumes "is_8x8 board_coords" and "parse_move move = Inr ix"
  shows "make_move board_coords move =
           (if subscript_ok (origin_row ix) \<and> subscript_ok (origin_column ix) \<and>
               subscript_ok (dest_row ix) \<and> subscript_ok (dest_column ix)
            then Inr [board_coords ! wrap_index (origin_row ix) ! wrap_index (origin_column ix),
                      board_coords ! wrap_index (dest_row ix) ! wrap_index (dest_column ix)]
            else Inl IndexError)"
  by (simp add: make_move_def assms(2) grid_lookup [OF assms(1)])

theorem make_move_fault_iff_witness:
  "is_8x8 main_square_centers \<and>
   parse_move ''e0e4'' =
     Inr \<lparr>origin_column = 4, origin_row = 8, dest_column = 4, dest_row = 4\<rparr> \<and>
   \<not> subscript_ok 8 \<and> make_move main_square_centers ''e0e4'' = Inl IndexError"
proof -
  have g: "is_8x8 main_square_centers" by code_simp
  have p: "parse_move ''e0e4'' =
     Inr \<lparr>origin_column = 4, origin_row = 8, dest_column = 4, dest_row = 4\<rparr>"
    by code_simp
  have n: "\<not> subscript_ok 8" by (simp add: subscript_ok_def)
  from make_move_fault_iff [OF g p] g p n show ?thesis by simp
qed

lemma length_ge_4:
  assumes "4 \<le> length xs"
  shows "\<exists>rest. xs = xs ! 0 # xs ! 1 # xs ! 2 # xs ! 3 # rest"
proof -
  obtain a xs1 where 1: "xs = a # xs1" using assms by (cases xs) auto
  obtain b xs2 where 2: "xs1 = b # xs2" using assms 1 by (cases xs1) auto
  obtain c xs3 where 3: "xs2 = c # xs3" using assms 1 2 by (cases xs2) auto
  obtain d xs4 where 4: "xs3 = d # xs4" using assms 1 2 3 by (cases xs3) auto
  show ?thesis by (simp add: 1 2 3 4)
qed

lemma file_letter_in_board: "is_file_letter c \<Longrightarrow> in_board (ord c - ord CHR ''a'')"
  by (auto simp: is_file_letter_def in_board_def ord_def)

lemma rank_digit_in_board:
  "is_rank_digit c \<Longrightarrow> is_digit c \<and> in_board (8 - int (digit_value c))"
  by (auto simp: is_rank_digit_def is_digit_def in_board_def digit_value_def)

text \<open>
  Claim C10. For every move string of length at least 4 whose characters at positions 0
  and 2 are among \<open>a\<close>..\<open>h\<close> and whose characters at positions 1 and 3 are among
  \<open>1\<close>..\<open>8\<close>, the four indices computed by \<open>make_move\<close> lie in 0..7, and on every 8x8
  grid both lookups succeed: no fault is raised and the two points are clicked.
\<close>

theorem make_move_well_formed:
  assumes "4 \<le> length move"
    and "is_file_letter (move ! 0)" and "is_rank_digit (move ! 1)"
    and "is_file_letter (move ! 2)" and "is_rank_digit (move ! 3)"
    and "is_8x8 board_coords"
  shows "\<exists>ix. parse_move move = Inr ix \<and>
           in_board (origin_row ix) \<and> in_board (origin_column ix) \<and>
           in_board (dest_row ix) \<and> in_board (dest_column ix) \<and>
           make_move board_coords move =
             Inr [board_coords ! nat (origin_row ix) ! nat (origin_column ix),
                  board_coords ! nat (dest_row ix) ! nat (dest_column ix)]"
proof -
  obtain rest where move: "move = move ! 0 # move ! 1 # move ! 2 # move ! 3 # rest"
    using length_ge_4 [OF assms(1)] by blast
  define ix where "ix =
    \<lparr>origin_column = ord (move ! 0) - ord CHR ''a'', origin_row = 8 - int (digit_value (move ! 1)),
     dest_column = ord (move ! 2) - ord CHR ''a'', dest_row = 8 - int (digit_value (move ! 3))\<rparr>"
  have "parse_move (move ! 0 # move ! 1 # move ! 2 # move ! 3 # rest) = Inr ix"
    unfolding ix_def using assms(3,5) by (intro parse_move_four) (simp_all add: rank_digit_in_board)
  then have parsed: "parse_move move = Inr ix"
    using move by simp
  have inside: "in_board (origin_row ix)" "in_board (origin_column ix)"
    "in_board (dest_row ix)" "in_board (dest_column ix)"
    using assms(2-5) by (simp_all add: ix_def file_letter_in_board rank_digit_in_board)
  from make_move_in_board [OF assms(6) parsed inside] parsed inside
  show ?thesis by blast
qed

theorem make_move_well_formed_witness:
  "4 \<le> length ''e7e8q'' \<and> is_file_letter (''e7e8q'' ! 0) \<and> is_rank_digit (''e7e8q'' ! 1) \<and>
   is_file_letter (''e7e8q'' ! 2) \<and> is_rank_digit (''e7e8q'' ! 3) \<and>
   is_8x8 main_square_centers \<and>
   make_move main_square_centers ''e7e8q'' =
     Inr [main_square_centers ! 1 ! 4, main_square_centers ! 0 ! 4]"
proof -
  have h: "4 \<le> length ''e7e8q''" "is_file_letter (''e7e8q'' ! 0)"
    "is_rank_digit (''e7e8q'' ! 1)" "is_file_letter (''e7e8q'' ! 2)"
    "is_rank_digit (''e7e8q'' ! 3)"
    by (simp_all add: is_file_letter_def is_rank_digit_def)
  have g: "is_8x8 main_square_centers" by code_simp
  have p: "parse_move ''e7e8q'' =
     Inr \<lparr>origin_column = 4, origin_row = 1, dest_column = 4, dest_row = 0\<rparr>"
    by code_simp
  from make_move_well_formed [OF h g] obtain ix where
    "parse_move ''e7e8q'' = Inr ix" and
    mv: "make_move main_square_centers ''e7e8q'' =
          Inr [main_square_centers ! nat (origin_row ix) ! nat (origin_column ix),
               main_square_centers ! nat (dest_row ix) ! nat (dest_column ix)]"
    by blast
  with p have "ix = \<lparr>origin_column = 4, origin_row = 1, dest_column = 4, dest_row = 0\<rparr>"
    by simp
  with mv have "make_move main_square_centers ''e7e8q'' =
     Inr [main_square_centers ! 1 ! 4, main_square_centers ! 0 ! 4]"
    by simp
  with h g show ?thesis by blast
qed

section \<open>The rank substrings of the placement field\<close>

lemma split_on_no_sep:
  "sep \<notin> set a \<Longrightarrow> split_on sep a = [a]"
  by (induction a) auto

lemma split_on_append_sep:
  "sep \<notin> set a \<Longrightarrow> split_on sep (a @ sep # b) = a # split_on sep b"
  by (induction a) auto

lemma split_on_join_ranks:
  assumes "\<forall>r \<in> set rs. CHR ''/'' \<notin> set r" and "rs \<noteq> []"
  shows "split_on CHR ''/'' (join_ranks rs) = rs"
  using assms
proof (induction rs rule: induct_list012)
  case 1
  then show ?case by simp
next
  case (2 r)
  then show ?case by (simp add: split_on_no_sep)
next
  case (3 r r' rs)
  then show ?case by (simp add: split_on_append_sep)
qed

lemma seg_weight_append: "seg_weight (a @ b) = seg_weight a + seg_weight b"
  by (induction a) simp_all

lemma str_nat_digit: "n < 10 \<Longrightarrow> str_nat n = [digit_char n]"
  by (simp add: str_nat.simps)

lemma digit_char_props:
  assumes "n < 10"
  shows "is_digit (digit_char n)" and "digit_value (digit_char n) = n"
  using assms by (auto simp: is_digit_def digit_value_def digit_char_def)

lemma is_digit_props:
  assumes "is_digit c"
  shows "c \<noteq> CHR ''/''" and "c \<noteq> CHR '' ''"
  using assms by (auto simp: is_digit_def)

lemma is_piece_char:
  assumes "is_piece square"
  obtains c where "square = [c]" and "is_letter c"
  using assms by (cases square) (auto simp: is_piece_def)

lemma is_letter_props:
  assumes "is_letter c"
  shows "\<not> is_digit c" and "c \<noteq> CHR ''/''" and "c \<noteq> CHR '' ''" and "c \<noteq> CHR ''-''"
  using assms by (auto simp: is_letter_def is_digit_def)

lemma rank_text_weight:
  assumes "list_all is_square squares" and "pending + length squares < 10"
  shows "seg_weight (rank_text squares pending) = pending + length squares \<and>
         (\<forall>c \<in> set (rank_text squares pending). is_digit c \<or> is_letter c)"
  using assms
proof (induction squares arbitrary: pending)
  case Nil
  then show ?case
    by (simp add: str_nat_digit digit_char_props)
next
  case (Cons square squares)
  show ?case
  proof (cases "square = ''-''")
    case True
    with Cons.IH [of "pending + 1"] Cons.prems show ?thesis by simp
  next
    case False
    with Cons.prems have "is_piece square" by (simp add: is_square_def)
    then obtain c where c: "square = [c]" "is_letter c" by (rule is_piece_char)
    from Cons.prems have "list_all is_square squares" "0 + length squares < 10" by simp_all
    from Cons.IH [OF this]
    have rest: "seg_weight (rank_text squares 0) = length squares"
      "\<forall>c \<in> set (rank_text squares 0). is_digit c \<or> is_letter c" by simp_all
    from Cons.prems have p: "pending < 10" by simp
    show ?thesis
      using False c rest p
      by (simp add: seg_weight_append str_nat_digit digit_char_props is_letter_props)
  qed
qed


lemma set_join_ranks: "set (join_ranks rs) \<subseteq> (\<Union>r \<in> set rs. set r) \<union> {CHR ''/''}"
  by (induction rs rule: induct_list012) auto

lemma placement_of_ranks:
  assumes "is_8x8 board_pieces"
    and "\<forall>r \<in> set board_pieces. \<forall>c \<in> set (spec_rank r). is_digit c \<or> is_letter c"
  shows "board_placement board_pieces color_to_move = Inr (join_ranks (map spec_rank board_pieces))"
    and "split_on CHR ''/'' (join_ranks (map spec_rank board_pieces)) = map spec_rank board_pieces"
proof -
  have chars: "\<forall>s \<in> set (map spec_rank board_pieces). CHR ''/'' \<notin> set s \<and> CHR '' '' \<notin> set s"
    using assms(2) is_digit_props is_letter_props by fastforce
  have "board_pieces \<noteq> []"
    using assms(1) by (auto simp: is_8x8_def)
  with chars show "split_on CHR ''/'' (join_ranks (map spec_rank board_pieces)) =
      map spec_rank board_pieces"
    by (intro split_on_join_ranks) simp_all
  have "CHR '' '' \<notin> set (join_ranks (map spec_rank board_pieces))"
    using chars set_join_ranks [of "map spec_rank board_pieces"] by auto
  then show "board_placement board_pieces color_to_move =
      Inr (join_ranks (map spec_rank board_pieces))"
    by (simp add: board_placement_def board_to_fen_8x8 [OF assms(1)] placement_field_suffix)
qed

lemma is_8x8_row: "is_8x8 m \<Longrightarrow> r \<in> set m \<Longrightarrow> length r = 8"
  by (simp add: is_8x8_def list_all_iff)



text \<open>
  Claim C9. For every 8x8 matrix whose entries are single piece letters or \<open>-\<close>, the
  placement field produced by \<open>board_to_fen\<close> has exactly 8 segments between its \<open>/\<close>
  separators, and in every segment the values of the digits plus the number of non-digit
  characters add up to 8; for the all-empty matrix every segment is exactly \<open>8\<close>.
\<close>

theorem rank_segments_cover_8:
  assumes "is_8x8 board_pieces" and "list_all (list_all is_square) board_pieces"
  shows "(\<exists>p. board_placement board_pieces color_to_move = Inr p \<and>
            length (split_on CHR ''/'' p) = 8 \<and>
            list_all (\<lambda>seg. seg_weight seg = 8) (split_on CHR ''/'' p)) \<and>
         (\<exists>p. board_placement all_empty_board color_to_move = Inr p \<and>
            split_on CHR ''/'' p = replicate 8 ''8'')"
proof
  have rows: "seg_weight (spec_rank r) = 8 \<and>
      (\<forall>c \<in> set (spec_rank r). is_digit c \<or> is_letter c)" if "r \<in> set board_pieces" for r
  proof -
    from that assms(2) have sq: "list_all is_square r"
      by (simp add: list_all_iff)
    have "0 + length r < 10"
      using is_8x8_row [OF assms(1) that] by simp
    from rank_text_weight [OF sq this] is_8x8_row [OF assms(1) that]
    show ?thesis by (simp add: spec_rank_def)
  qed
  then have chars: "\<forall>r \<in> set board_pieces. \<forall>c \<in> set (spec_rank r). is_digit c \<or> is_letter c"
    by simp
  note placed = placement_of_ranks [OF assms(1) chars]
  have "list_all (\<lambda>seg. seg_weight seg = 8) (map spec_rank board_pieces)"
    using rows by (simp add: list_all_iff)
  moreover have "length (map spec_rank board_pieces) = 8"
    using assms(1) by (simp add: is_8x8_def)
  ultimately show "\<exists>p. board_placement board_pieces color_to_move = Inr p \<and>
            length (split_on CHR ''/'' p) = 8 \<and>
            list_all (\<lambda>seg. seg_weight seg = 8) (split_on CHR ''/'' p)"
    using placed by (intro exI [of _ "join_ranks (map spec_rank board_pieces)"]) simp
next
  have e8: "is_8x8 all_empty_board"
    by (simp add: all_empty_board_def is_8x8_def list_all_iff)
  have ranks: "map spec_rank all_empty_board = replicate 8 ''8''"
    by code_simp
  have "\<forall>r \<in> set all_empty_board. \<forall>c \<in> set (spec_rank r). is_digit c \<or> is_letter c"
  proof -
    have "list_all (\<lambda>r. list_all (\<lambda>c. is_digit c \<or> is_letter c) (spec_rank r)) all_empty_board"
      by code_simp
    then show ?thesis by (simp add: list_all_iff)
  qed
  from placement_of_ranks [OF e8 this]
  show "\<exists>p. board_placement all_empty_board color_to_move = Inr p \<and>
            split_on CHR ''/'' p = replicate 8 ''8''"
    by (simp add: ranks)
qed

theorem rank_segments_cover_8_witness:
  "is_8x8 initial_board \<and> list_all (list_all is_square) initial_board \<and>
   (\<exists>p. board_placement initial_board ''white'' = Inr p \<and>
            length (split_on CHR ''/'' p) = 8 \<and>
            list_all (\<lambda>seg. seg_weight seg = 8) (split_on CHR ''/'' p))"
proof -
  have h: "is_8x8 initial_board" "list_all (list_all is_square) initial_board"
    by code_simp+
  from rank_segments_cover_8 [OF h, of "''white''"] h show ?thesis by blast
qed

end
